theory Spec2Isabelle
  imports Main "HOL-Library.Word"
begin

unbundle bit_operations_syntax

section \<open>Runtime values\<close>

text \<open>
  The serialization service of \<^verbatim>\<open>src/serialization/SerializationService.ts\<close> is written
  against untyped runtime values (\<^verbatim>\<open>any\<close>).  The part of the JavaScript value universe
  that the service inspects is modelled by one datatype:
  \<^item> numbers are integers (the service only uses numbers as serializer ids, partition
    hashes, \<^verbatim>\<open>factoryId\<close>/\<^verbatim>\<open>classId\<close> and \<^verbatim>\<open>hzCustomId\<close>);
  \<^item> a function value \<open>JFunction n\<close> is a method that returns the number \<open>n\<close> when it is
    invoked without arguments (\<^verbatim>\<open>getType()\<close>, \<^verbatim>\<open>getPartitionHash()\<close>); for the methods
    that are only tested for presence (\<^verbatim>\<open>readData\<close>, \<^verbatim>\<open>writeData\<close>, ...) the number
    is irrelevant;
  \<^item> an object carries the name of its constructor and its own properties in
    declaration order;
  \<^item> \<open>JHeapData b\<close> is an instance of the class \<^verbatim>\<open>HeapData\<close> wrapping the buffer \<open>b\<close>.
\<close>

type_synonym byte = "8 word"
type_synonym buffer = "byte list"

datatype jsval =
    JUndefined
  | JNull
  | JBool bool
  | JNumber int
  | JString string
  | JFunction int
  | JArray "jsval list"
  | JObject string "(string \<times> jsval) list"
  | JHeapData buffer

text \<open>
  Every \<^verbatim>\<open>throw\<close> of the source and every exception of the runtime that the source can
  run into is a value of \<open>error\<close>.  The three \<^verbatim>\<open>RangeError\<close>s of the resolver and of
  \<^verbatim>\<open>toObject\<close> keep what their message is built from.
\<close>

datatype error =
    UndefinedCannotBeSerialized
      \<comment> \<open>\<^verbatim>\<open>RangeError('undefined cannot be serialized.')\<close>\<close>
  | NoSuitableSerializer jsval
      \<comment> \<open>\<^verbatim>\<open>RangeError('There is no suitable serializer for ' + obj + '.')\<close>\<close>
  | NoSuitableDeserializer int
      \<comment> \<open>\<^verbatim>\<open>RangeError(`There is no suitable deserializer for data with type ${id}`)\<close>\<close>
  | NameAlreadyInRegistry
      \<comment> \<open>\<^verbatim>\<open>RangeError('Given serializer name is already in the registry.')\<close>\<close>
  | IdAlreadyInRegistry
      \<comment> \<open>\<^verbatim>\<open>RangeError('Given serializer id is already in the registry.')\<close>\<close>
  | TypeError string
      \<comment> \<open>raised by the runtime: property access on \<^verbatim>\<open>null\<close>/\<^verbatim>\<open>undefined\<close>, call of a non-function\<close>
  | OutOfRange int
      \<comment> \<open>\<^verbatim>\<open>RangeError\<close> of a cursor asked to write a number that is no signed 32-bit integer\<close>
  | CollaboratorError string
      \<comment> \<open>raised inside a codec or a cursor\<close>

subsection \<open>Sequencing of calls that can raise\<close>

text \<open>
  \<open>andThen m f\<close> runs \<open>f\<close> on the result of \<open>m\<close>; an exception raised by \<open>m\<close> passes
  through, as it does in the statement sequences of the source.
\<close>

definition andThen :: "error + 'a \<Rightarrow> ('a \<Rightarrow> error + 'b) \<Rightarrow> error + 'b" where
  "andThen m f = (case m of Inl e \<Rightarrow> Inl e | Inr x \<Rightarrow> f x)"

subsection \<open>The JavaScript operators the service uses\<close>

text \<open>\<^verbatim>\<open>v == null\<close> (loose equality): true for \<^verbatim>\<open>null\<close> and \<^verbatim>\<open>undefined\<close> only.\<close>

fun isNullish :: "jsval \<Rightarrow> bool" where
  "isNullish JUndefined = True"
| "isNullish JNull = True"
| "isNullish _ = False"

text \<open>The truth value of \<open>v\<close> in a condition (\<^verbatim>\<open>if (v)\<close>, \<^verbatim>\<open>!v\<close>, \<^verbatim>\<open>a && b\<close>).\<close>

fun truthy :: "jsval \<Rightarrow> bool" where
  "truthy JUndefined = False"
| "truthy JNull = False"
| "truthy (JBool b) = b"
| "truthy (JNumber n) = (n \<noteq> 0)"
| "truthy (JString s) = (s \<noteq> [])"
| "truthy _ = True"

text \<open>\<^verbatim>\<open>typeof v === 'number'\<close>.\<close>

fun typeofNumber :: "jsval \<Rightarrow> bool" where
  "typeofNumber (JNumber n) = True"
| "typeofNumber _ = False"

subsection \<open>Big-endian and little-endian 32-bit integers\<close>

definition int32BE :: "int \<Rightarrow> buffer" where
  "int32BE n = (let w = (word_of_int n :: 32 word) in
     [ucast (drop_bit 24 w), ucast (drop_bit 16 w), ucast (drop_bit 8 w), ucast w])"

definition int32LE :: "int \<Rightarrow> buffer" where
  "int32LE n = rev (int32BE n)"

text \<open>Reading four bytes as a signed 32-bit integer; a missing byte reads as 0.\<close>

definition byteAt :: "buffer \<Rightarrow> nat \<Rightarrow> 32 word" where
  "byteAt b i = (if i < length b then ucast (b ! i) else 0)"

definition readInt32BE :: "buffer \<Rightarrow> nat \<Rightarrow> int" where
  "readInt32BE b off = sint (push_bit 24 (byteAt b off) OR push_bit 16 (byteAt b (off + 1))
      OR push_bit 8 (byteAt b (off + 2)) OR byteAt b (off + 3))"

definition readInt32LE :: "buffer \<Rightarrow> nat \<Rightarrow> int" where
  "readInt32LE b off = sint (push_bit 24 (byteAt b (off + 3)) OR push_bit 16 (byteAt b (off + 2))
      OR push_bit 8 (byteAt b (off + 1)) OR byteAt b off)"

subsection \<open>Property access and method calls\<close>

text \<open>
  Modelled from the spec: the class \<^verbatim>\<open>HeapData\<close> (\<^verbatim>\<open>HeapData.ts\<close> is not among the
  sources).  An envelope is an immutable byte sequence with fixed-offset header fields:
  a 4-byte partition hash, a 4-byte type id, then the payload.  \<^verbatim>\<open>toData\<close> builds a
  \<^verbatim>\<open>HeapData\<close> from the buffer alone (no byte-order flag is passed), and writes both
  header fields with \<^verbatim>\<open>writeIntBE\<close>; the accessors therefore read them big-endian.
\<close>

definition PARTITION_HASH_OFFSET :: nat where
  "PARTITION_HASH_OFFSET = 0"

definition TYPE_OFFSET :: nat where
  "TYPE_OFFSET = 4"

definition DATA_OFFSET :: nat where
  "DATA_OFFSET = 8"

definition HeapData_getPartitionHash :: "buffer \<Rightarrow> int" where
  "HeapData_getPartitionHash b = readInt32BE b PARTITION_HASH_OFFSET"

definition HeapData_getType :: "buffer \<Rightarrow> int" where
  "HeapData_getType b = readInt32BE b TYPE_OFFSET"

text \<open>
  \<^verbatim>\<open>obj.name\<close> and \<^verbatim>\<open>obj['name']\<close>.  Reading a property of \<^verbatim>\<open>null\<close> or \<^verbatim>\<open>undefined\<close>
  raises a \<^verbatim>\<open>TypeError\<close>; a property that is not there reads as \<^verbatim>\<open>undefined\<close>.  Of the
  inherited properties only the ones the service looks at are modelled: the length of
  an array and the two accessors of a \<^verbatim>\<open>HeapData\<close>.
\<close>

fun getProp :: "jsval \<Rightarrow> string \<Rightarrow> error + jsval" where
  "getProp JUndefined name = Inl (TypeError (''Cannot read properties of undefined (reading '' @ name @ '')''))"
| "getProp JNull name = Inl (TypeError (''Cannot read properties of null (reading '' @ name @ '')''))"
| "getProp (JObject c props) name =
     Inr (case map_of props name of None \<Rightarrow> JUndefined | Some v \<Rightarrow> v)"
| "getProp (JArray xs) name =
     Inr (if name = ''length'' then JNumber (int (length xs)) else JUndefined)"
| "getProp (JHeapData b) name =
     Inr (if name = ''getType'' then JFunction (HeapData_getType b)
          else if name = ''getPartitionHash'' then JFunction (HeapData_getPartitionHash b)
          else JUndefined)"
| "getProp _ name = Inr JUndefined"

text \<open>\<^verbatim>\<open>obj[0]\<close>: the first element of an array, the property named \<^verbatim>\<open>0\<close> of an object.\<close>

fun getFirst :: "jsval \<Rightarrow> error + jsval" where
  "getFirst (JArray xs) = Inr (case xs of [] \<Rightarrow> JUndefined | x # _ \<Rightarrow> x)"
| "getFirst v = getProp v ''0''"

text \<open>\<^verbatim>\<open>f()\<close> for a value \<open>f\<close> read from a property.\<close>

fun call0 :: "string \<Rightarrow> jsval \<Rightarrow> error + int" where
  "call0 name (JFunction n) = Inr n"
| "call0 name _ = Inl (TypeError (name @ '' is not a function''))"

text \<open>
  \<^verbatim>\<open>obj.constructor\<close>, as the name of the constructor function.  An own property named
  \<^verbatim>\<open>constructor\<close> is not looked at.
\<close>

fun constructorOf :: "jsval \<Rightarrow> error + string" where
  "constructorOf JUndefined = Inl (TypeError ''Cannot read properties of undefined (reading constructor)'')"
| "constructorOf JNull = Inl (TypeError ''Cannot read properties of null (reading constructor)'')"
| "constructorOf (JBool b) = Inr ''Boolean''"
| "constructorOf (JNumber n) = Inr ''Number''"
| "constructorOf (JString s) = Inr ''String''"
| "constructorOf (JFunction n) = Inr ''Function''"
| "constructorOf (JArray xs) = Inr ''Array''"
| "constructorOf (JObject c props) = Inr c"
| "constructorOf (JHeapData b) = Inr ''HeapData''"

text \<open>\<^verbatim>\<open>data.toBuffer()\<close>: only a \<^verbatim>\<open>HeapData\<close> has this method.\<close>

fun toBuffer :: "jsval \<Rightarrow> error + buffer" where
  "toBuffer (JHeapData b) = Inr b"
| "toBuffer _ = Inl (TypeError ''toBuffer is not a function'')"

section \<open>Cursors and codecs\<close>

text \<open>
  Modelled from the spec: the cursors \<^verbatim>\<open>PositionalObjectDataOutput\<close> and
  \<^verbatim>\<open>ObjectDataInput\<close> (\<^verbatim>\<open>ObjectData.ts\<close> is not among the sources).  An output cursor
  is created with the byte order of the configuration and collects the bytes written
  so far; \<^verbatim>\<open>writeIntBE\<close> appends a 32-bit integer big-endian whatever the configured
  order is, \<^verbatim>\<open>writeInt\<close> appends it in the configured order.  Both raise a
  \<^verbatim>\<open>RangeError\<close> for a number outside the signed 32-bit range and write nothing then.
  An input cursor reads a buffer from a position, in the configured order.
\<close>

record dataOutput =
  out_buffer :: buffer
  out_isBigEndian :: bool

record dataInput =
  in_buffer :: buffer
  in_pos :: nat
  in_isBigEndian :: bool

definition PositionalObjectDataOutput :: "bool \<Rightarrow> dataOutput" where
  "PositionalObjectDataOutput isBigEndian = \<lparr>out_buffer = [], out_isBigEndian = isBigEndian\<rparr>"

definition ObjectDataInput :: "buffer \<Rightarrow> nat \<Rightarrow> bool \<Rightarrow> dataInput" where
  "ObjectDataInput b off isBigEndian = \<lparr>in_buffer = b, in_pos = off, in_isBigEndian = isBigEndian\<rparr>"

definition inInt32 :: "int \<Rightarrow> bool" where
  "inInt32 n \<longleftrightarrow> - (2 ^ 31) \<le> n \<and> n < 2 ^ 31"

definition writeIntBE :: "dataOutput \<Rightarrow> int \<Rightarrow> error + dataOutput" where
  "writeIntBE out n =
     (if inInt32 n then Inr (out\<lparr>out_buffer := out_buffer out @ int32BE n\<rparr>)
      else Inl (OutOfRange n))"

definition writeInt :: "dataOutput \<Rightarrow> int \<Rightarrow> error + dataOutput" where
  "writeInt out n =
     (if inInt32 n
      then Inr (out\<lparr>out_buffer := out_buffer out
                  @ (if out_isBigEndian out then int32BE n else int32LE n)\<rparr>)
      else Inl (OutOfRange n))"

definition readInt :: "dataInput \<Rightarrow> error + int \<times> dataInput" where
  "readInt inp =
     (if length (in_buffer inp) < in_pos inp + 4 then Inl (CollaboratorError ''end of input'')
      else Inr (if in_isBigEndian inp then readInt32BE (in_buffer inp) (in_pos inp)
                else readInt32LE (in_buffer inp) (in_pos inp),
                inp\<lparr>in_pos := in_pos inp + 4\<rparr>))"

text \<open>
  The interface \<^verbatim>\<open>Serializer\<close>: a numeric id, \<^verbatim>\<open>write(output, object)\<close> and
  \<^verbatim>\<open>read(input)\<close>.  The codecs themselves are collaborators of the service; the service
  only reads their id and calls the two methods, so they are arbitrary functions here.
  A reference of type \<^verbatim>\<open>Serializer\<close> can also hold \<^verbatim>\<open>null\<close> or \<^verbatim>\<open>undefined\<close>.
\<close>

record serializer =
  ser_id :: int
  ser_write :: "dataOutput \<Rightarrow> jsval \<Rightarrow> error + dataOutput"
  ser_read :: "dataInput \<Rightarrow> error + jsval \<times> dataInput"

datatype serializer_ref = SNull | SUndefined | SObj serializer

fun isSNull :: "serializer_ref \<Rightarrow> bool" where
  "isSNull SNull = True"
| "isSNull _ = False"

section \<open>Configuration and service state\<close>

datatype JsonStringDeserializationPolicy = EAGER | NO_DESERIALIZATION

text \<open>
  The options of \<^verbatim>\<open>SerializationConfigImpl\<close> that the service reads itself.  An absent
  \<^verbatim>\<open>globalSerializer\<close> (\<^verbatim>\<open>null\<close> or \<^verbatim>\<open>undefined\<close>) is \<open>None\<close>.  Of each entry of
  \<^verbatim>\<open>compact.serializers\<close> only the name of the class it serializes is kept.  The factory
  tables are handed to the portable and the identified codec and not read by the service.
\<close>

record SerializationConfigImpl =
  defaultNumberType :: string
  isBigEndian :: bool
  jsonStringDeserializationPolicy :: JsonStringDeserializationPolicy
  customSerializers :: "serializer list"
  globalSerializer :: "serializer option"
  compactSerializers :: "string list"

text \<open>
  What the service imports from files that are not among the sources, as parameters:
  \<^verbatim>\<open>Util.getType\<close>, which names the runtime kind of a value, the constructors of
  \<^verbatim>\<open>DefaultSerializers.ts\<close> (by class name), and the three structural codecs.
\<close>

record collaborators =
  getType :: "jsval \<Rightarrow> string"
  newDefaultSerializer :: "string \<Rightarrow> serializer"
  newCompactStreamSerializer :: serializer
  newPortableSerializer :: serializer
  newIdentifiedSerializer :: serializer

text \<open>
  The fields of \<^verbatim>\<open>SerializationServiceV1\<close>.  The two dictionaries are maps.
  \<open>compactClasses\<close> is the state of the compact codec that its \<^verbatim>\<open>isRegisteredAsCompact\<close>
  reads (\<^verbatim>\<open>CompactStreamSerializer.ts\<close> is not among the sources): the classes registered
  as compact.  \<open>Util_getType\<close> is the imported \<^verbatim>\<open>Util.getType\<close>, carried along with the
  state.
\<close>

record service =
  serializationConfig :: SerializationConfigImpl
  registry :: "int \<rightharpoonup> serializer"
  serializerNameToId :: "string \<rightharpoonup> int"
  compactStreamSerializer :: serializer
  portableSerializer :: serializer
  identifiedSerializer :: serializer
  compactClasses :: "string list"
  Util_getType :: "jsval \<Rightarrow> string"

section \<open>The registry\<close>

text \<open>\<^verbatim>\<open>this.registry[id]\<close>: \<^verbatim>\<open>undefined\<close> when the id is not a key.\<close>

definition findSerializerById :: "service \<Rightarrow> int \<Rightarrow> serializer_ref" where
  "findSerializerById svc i = (case registry svc i of None \<Rightarrow> SUndefined | Some s \<Rightarrow> SObj s)"

definition findSerializerByName :: "service \<Rightarrow> string \<Rightarrow> bool \<Rightarrow> serializer_ref" where
  "findSerializerByName svc name isArray =
     (let convertedName =
            (if name = ''number'' then defaultNumberType (serializationConfig svc)
             else if name = ''buffer'' then ''byteArray''
             else name);
          serializerName = convertedName @ (if isArray then ''Array'' else [])
      in case serializerNameToId svc serializerName of
           None \<Rightarrow> SNull
         | Some serializerId \<Rightarrow> findSerializerById svc serializerId)"

text \<open>
  \<^verbatim>\<open>if (this.serializerNameToId[name])\<close> tests the truth value of the stored id, a number:
  an absent name and a name stored with id 0 are both falsy.
  \<^verbatim>\<open>if (this.registry[serializer.id])\<close> tests a stored codec, an object, which is truthy.
\<close>

definition registerSerializer :: "service \<Rightarrow> string \<Rightarrow> serializer \<Rightarrow> error + service" where
  "registerSerializer svc name s =
     (if (case serializerNameToId svc name of None \<Rightarrow> False | Some i \<Rightarrow> truthy (JNumber i))
      then Inl NameAlreadyInRegistry
      else if (case registry svc (ser_id s) of None \<Rightarrow> False | Some r \<Rightarrow> True)
      then Inl IdAlreadyInRegistry
      else Inr (svc\<lparr>serializerNameToId := (serializerNameToId svc)(name \<mapsto> ser_id s),
                     registry := (registry svc)(ser_id s \<mapsto> s)\<rparr>))"

section \<open>The resolver\<close>

fun isData :: "jsval \<Rightarrow> bool" where
  "isData (JHeapData b) = True"
| "isData _ = False"

text \<open>
  \<^verbatim>\<open>obj instanceof C\<close> for a class \<open>C\<close> other than \<^verbatim>\<open>HeapData\<close>: the constructor of an
  object is \<open>C\<close> (subclasses are not modelled).  It is false, and does not raise, for
  every value that is not an object.
\<close>

fun instanceOf :: "jsval \<Rightarrow> string \<Rightarrow> bool" where
  "instanceOf (JObject c props) cls = (c = cls)"
| "instanceOf _ cls = False"

definition isCompactSerializable :: "service \<Rightarrow> jsval \<Rightarrow> error + bool" where
  "isCompactSerializable svc obj =
     (if instanceOf obj ''CompactGenericRecordImpl'' then Inr True
      else andThen (constructorOf obj) (\<lambda>c. Inr (c \<in> set (compactClasses svc))))"

text \<open>
  The two structural predicates read four properties of the same value; reading raises
  only when the value is \<^verbatim>\<open>null\<close> or \<^verbatim>\<open>undefined\<close>, and then the first read does.
\<close>

definition hasMethodsAndIds :: "jsval \<Rightarrow> string \<Rightarrow> string \<Rightarrow> error + bool" where
  "hasMethodsAndIds obj readName writeName =
     andThen (getProp obj readName) (\<lambda>r.
     andThen (getProp obj writeName) (\<lambda>w.
     andThen (getProp obj ''factoryId'') (\<lambda>f.
     andThen (getProp obj ''classId'') (\<lambda>c.
       Inr (truthy r \<and> truthy w \<and> typeofNumber f \<and> typeofNumber c)))))"

definition isIdentifiedDataSerializable :: "jsval \<Rightarrow> error + bool" where
  "isIdentifiedDataSerializable obj = hasMethodsAndIds obj ''readData'' ''writeData''"

definition isPortableSerializable :: "jsval \<Rightarrow> error + bool" where
  "isPortableSerializable obj = hasMethodsAndIds obj ''readPortable'' ''writePortable''"

text \<open>\<^verbatim>\<open>typeof v === 'number' && v >= 1\<close>.\<close>

fun isNumberAtLeastOne :: "jsval \<Rightarrow> bool" where
  "isNumberAtLeastOne (JNumber n) = (n \<ge> 1)"
| "isNumberAtLeastOne _ = False"

definition isCustomSerializable :: "jsval \<Rightarrow> error + bool" where
  "isCustomSerializable object =
     andThen (getProp object ''hzCustomId'') (\<lambda>v. Inr (isNumberAtLeastOne v))"

text \<open>
  \<^verbatim>\<open>this.registry[key]\<close> for a key that is any value: only a number can be the id of a
  registered codec.
\<close>

fun findSerializerByKey :: "service \<Rightarrow> jsval \<Rightarrow> serializer_ref" where
  "findSerializerByKey svc (JNumber n) = findSerializerById svc n"
| "findSerializerByKey svc _ = SUndefined"

definition lookupDefaultSerializer :: "service \<Rightarrow> jsval \<Rightarrow> error + serializer_ref" where
  "lookupDefaultSerializer svc obj =
     andThen (isCompactSerializable svc obj) (\<lambda>isCompact.
       if isCompact then Inr (SObj (compactStreamSerializer svc))
       else andThen (isIdentifiedDataSerializable obj) (\<lambda>isIdentified.
         if isIdentified then Inr (SObj (identifiedSerializer svc))
         else andThen (isPortableSerializable obj) (\<lambda>isPortable.
           if isPortable then Inr (SObj (portableSerializer svc))
           else
             (let objectType = Util_getType svc obj in
              if objectType = ''array'' then
                andThen (getProp obj ''length'') (\<lambda>len.
                  if len = JNumber 0 then Inr (findSerializerByName svc ''number'' True)
                  else andThen (getFirst obj) (\<lambda>x.
                    Inr (findSerializerByName svc (Util_getType svc x) True)))
              else Inr (findSerializerByName svc objectType False)))))"

text \<open>
  \<^verbatim>\<open>findSerializerById(obj.hzCustomId)\<close> is \<^verbatim>\<open>undefined\<close>, not \<^verbatim>\<open>null\<close>, when no codec has
  that id.
\<close>

definition lookupCustomSerializer :: "service \<Rightarrow> jsval \<Rightarrow> error + serializer_ref" where
  "lookupCustomSerializer svc obj =
     andThen (isCustomSerializable obj) (\<lambda>isCustom.
       if isCustom then andThen (getProp obj ''hzCustomId'') (\<lambda>v. Inr (findSerializerByKey svc v))
       else Inr SNull)"

definition lookupGlobalSerializer :: "service \<Rightarrow> serializer_ref" where
  "lookupGlobalSerializer svc = findSerializerByName svc ''!global'' False"

text \<open>
  Each step of \<^verbatim>\<open>findSerializerFor\<close> runs only while \<^verbatim>\<open>serializer === null\<close>; the
  comparison is strict, so a reference that is \<^verbatim>\<open>undefined\<close> ends the chain.
\<close>

definition findSerializerFor :: "service \<Rightarrow> jsval \<Rightarrow> error + serializer_ref" where
  "findSerializerFor svc obj =
     (if obj = JUndefined then Inl UndefinedCannotBeSerialized
      else
        (let s1 = (if obj = JNull then findSerializerByName svc ''null'' False else SNull) in
         andThen (if isSNull s1 then lookupDefaultSerializer svc obj else Inr s1) (\<lambda>s2.
         andThen (if isSNull s2 then lookupCustomSerializer svc obj else Inr s2) (\<lambda>s3.
           (let s4 = (if isSNull s3 then lookupGlobalSerializer svc else s3);
                s5 = (if isSNull s4 then findSerializerByName svc ''!json'' False else s4)
            in if isSNull s5 then Inl (NoSuitableSerializer obj) else Inr s5)))))"

section \<open>Construction\<close>

text \<open>\<^verbatim>\<open>'' + n\<close> for an integer \<open>n\<close>: its decimal digits, with a minus sign when negative.\<close>

fun digitsOf :: "nat \<Rightarrow> string" where
  "digitsOf n = (if n < 10 then [char_of (48 + n)] else digitsOf (n div 10) @ [char_of (48 + n mod 10)])"

declare digitsOf.simps [simp del]

definition numberToString :: "int \<Rightarrow> string" where
  "numberToString n = (if n < 0 then CHR ''-'' # digitsOf (nat (- n)) else digitsOf (nat n))"

lemma andThen_cong [fundef_cong]:
  "m = m' \<Longrightarrow> (\<And>x. m' = Inr x \<Longrightarrow> f x = f' x) \<Longrightarrow> andThen m f = andThen m' f'"
  by (cases m') (simp_all add: andThen_def)

text \<open>A run of \<^verbatim>\<open>registerSerializer\<close> calls, in order; the first one that raises ends it.\<close>

fun registerAll :: "service \<Rightarrow> (string \<times> serializer) list \<Rightarrow> error + service" where
  "registerAll svc [] = Inr svc"
| "registerAll svc ((name, s) # rest) =
     andThen (registerSerializer svc name s) (\<lambda>svc'. registerAll svc' rest)"

text \<open>
  The names of \<^verbatim>\<open>registerDefaultSerializers\<close> with the class constructed for each, in
  the order of the source.
\<close>

definition defaultSerializerClasses :: "(string \<times> string) list" where
  "defaultSerializerClasses =
    [(''string'', ''StringSerializer''),
     (''double'', ''DoubleSerializer''),
     (''byte'', ''ByteSerializer''),
     (''boolean'', ''BooleanSerializer''),
     (''null'', ''NullSerializer''),
     (''short'', ''ShortSerializer''),
     (''integer'', ''IntegerSerializer''),
     (''long'', ''LongSerializer''),
     (''float'', ''FloatSerializer''),
     (''char'', ''CharSerializer''),
     (''date'', ''DateSerializer''),
     (''localDate'', ''LocalDateSerializer''),
     (''localTime'', ''LocalTimeSerializer''),
     (''localDateTime'', ''LocalDateTimeSerializer''),
     (''offsetDateTime'', ''OffsetDateTimeSerializer''),
     (''byteArray'', ''ByteArraySerializer''),
     (''charArray'', ''CharArraySerializer''),
     (''booleanArray'', ''BooleanArraySerializer''),
     (''shortArray'', ''ShortArraySerializer''),
     (''integerArray'', ''IntegerArraySerializer''),
     (''longArray'', ''LongArraySerializer''),
     (''doubleArray'', ''DoubleArraySerializer''),
     (''stringArray'', ''StringArraySerializer''),
     (''javaClass'', ''JavaClassSerializer''),
     (''floatArray'', ''FloatArraySerializer''),
     (''arrayList'', ''ArrayListSerializer''),
     (''linkedList'', ''LinkedListSerializer''),
     (''uuid'', ''UuidSerializer''),
     (''bigDecimal'', ''BigDecimalSerializer''),
     (''bigint'', ''BigIntSerializer''),
     (''javaArray'', ''JavaArraySerializer'')]"

definition registerDefaultSerializers :: "collaborators \<Rightarrow> service \<Rightarrow> error + service" where
  "registerDefaultSerializers deps svc =
     andThen (registerAll svc
                (map (\<lambda>(name, cls). (name, newDefaultSerializer deps cls)) defaultSerializerClasses))
       (\<lambda>svc1.
     andThen (registerSerializer svc1 ''!compact'' (compactStreamSerializer svc1)) (\<lambda>svc2.
     andThen (registerSerializer svc2 ''identified'' (identifiedSerializer svc2)) (\<lambda>svc3.
     andThen (registerSerializer svc3 ''!portable'' (portableSerializer svc3)) (\<lambda>svc4.
       if jsonStringDeserializationPolicy (serializationConfig svc4) = EAGER
       then registerSerializer svc4 ''!json'' (newDefaultSerializer deps ''JsonSerializer'')
       else registerSerializer svc4 ''!json''
              (newDefaultSerializer deps ''HazelcastJsonValueSerializer'')))))"

definition registerCustomSerializers :: "service \<Rightarrow> error + service" where
  "registerCustomSerializers svc =
     registerAll svc
       (map (\<lambda>customSerializer.
               (''!custom'' @ numberToString (ser_id customSerializer), customSerializer))
            (customSerializers (serializationConfig svc)))"

text \<open>
  Modelled from the spec: \<^verbatim>\<open>CompactStreamSerializer.registerSerializer\<close> (not among the
  sources).  The codecs of \<^verbatim>\<open>compact.serializers\<close> are registered into the
  structured-format collaborator: their classes become compact-serializable.
\<close>

definition registerCompactSerializers :: "service \<Rightarrow> service" where
  "registerCompactSerializers svc =
     svc\<lparr>compactClasses := compactClasses svc @ compactSerializers (serializationConfig svc)\<rparr>"

definition registerGlobalSerializer :: "service \<Rightarrow> error + service" where
  "registerGlobalSerializer svc =
     (case globalSerializer (serializationConfig svc) of
        None \<Rightarrow> Inr svc
      | Some candidate \<Rightarrow> registerSerializer svc ''!global'' candidate)"

definition SerializationServiceV1 :: "collaborators \<Rightarrow> SerializationConfigImpl \<Rightarrow> error + service" where
  "SerializationServiceV1 deps config =
     andThen (registerDefaultSerializers deps
                \<lparr>serializationConfig = config,
                 registry = Map.empty,
                 serializerNameToId = Map.empty,
                 compactStreamSerializer = newCompactStreamSerializer deps,
                 portableSerializer = newPortableSerializer deps,
                 identifiedSerializer = newIdentifiedSerializer deps,
                 compactClasses = [],
                 Util_getType = getType deps\<rparr>) (\<lambda>svc1.
     andThen (registerCustomSerializers svc1) (\<lambda>svc2.
       registerGlobalSerializer (registerCompactSerializers svc2)))"

section \<open>The facade\<close>

text \<open>
  A partition strategy is a function from a value to a number; it can raise.  The
  default strategy calls the value's \<^verbatim>\<open>getPartitionHash\<close> when the property is truthy.
\<close>

type_synonym PartitionStrategy = "jsval \<Rightarrow> error + int"

definition defaultPartitionStrategy :: PartitionStrategy where
  "defaultPartitionStrategy obj =
     (if isNullish obj then Inr 0
      else andThen (getProp obj ''getPartitionHash'') (\<lambda>f.
        if \<not> truthy f then Inr 0 else call0 ''obj.getPartitionHash'' f))"

definition calculatePartitionHash :: "jsval \<Rightarrow> PartitionStrategy \<Rightarrow> error + int" where
  "calculatePartitionHash object strategy = strategy object"

text \<open>\<^verbatim>\<open>serializer.id\<close> on a reference: a \<^verbatim>\<open>TypeError\<close> unless it holds a codec.\<close>

fun idOf :: "serializer_ref \<Rightarrow> error + int" where
  "idOf (SObj s) = Inr (ser_id s)"
| "idOf SNull = Inl (TypeError ''Cannot read properties of null (reading id)'')"
| "idOf SUndefined = Inl (TypeError ''Cannot read properties of undefined (reading id)'')"

text \<open>\<^verbatim>\<open>serializer.write(out, object)\<close> and \<^verbatim>\<open>serializer.read(inp)\<close> on a reference.\<close>

fun writeWith :: "serializer_ref \<Rightarrow> dataOutput \<Rightarrow> jsval \<Rightarrow> error + dataOutput" where
  "writeWith (SObj s) out object = ser_write s out object"
| "writeWith SNull out object = Inl (TypeError ''Cannot read properties of null (reading write)'')"
| "writeWith SUndefined out object = Inl (TypeError ''Cannot read properties of undefined (reading write)'')"

fun readWith :: "serializer_ref \<Rightarrow> dataInput \<Rightarrow> error + jsval \<times> dataInput" where
  "readWith (SObj s) inp = ser_read s inp"
| "readWith SNull inp = Inl (TypeError ''Cannot read properties of null (reading read)'')"
| "readWith SUndefined inp = Inl (TypeError ''Cannot read properties of undefined (reading read)'')"

text \<open>
  \<^verbatim>\<open>object.partitionKey\<close> under the guard \<^verbatim>\<open>object != null\<close>, where the read cannot
  raise.
\<close>

definition partitionKeyOf :: "jsval \<Rightarrow> jsval" where
  "partitionKeyOf object =
     (if isNullish object then JUndefined
      else case getProp object ''partitionKey'' of Inl e \<Rightarrow> JUndefined | Inr k \<Rightarrow> k)"

lemma size_map_of_less:
  "map_of props k = Some v \<Longrightarrow> size v < size (JObject c props)"
  by (induction props) (auto split: if_splits)

lemma size_partitionKeyOf:
  "\<not> isNullish (partitionKeyOf object) \<Longrightarrow> size (partitionKeyOf object) < size object"
  by (cases object) (auto simp: partitionKeyOf_def HeapData_getType_def dest: size_map_of_less split: option.splits if_splits)

text \<open>
  \<^verbatim>\<open>toData\<close> calls itself on the partition key, with the default strategy; the key is a
  property of the value, so the recursion ends.
\<close>

function toData :: "service \<Rightarrow> jsval \<Rightarrow> PartitionStrategy \<Rightarrow> error + jsval" where
  "toData svc object partitioningStrategy =
     (if isData object then Inr object
      else
        (let dataOutput = PositionalObjectDataOutput (isBigEndian (serializationConfig svc)) in
         andThen (findSerializerFor svc object) (\<lambda>serializer.
         andThen
           (if \<not> isNullish object \<and> \<not> isNullish (partitionKeyOf object) then
              (let partitionKey = partitionKeyOf object in
               andThen (toData svc partitionKey defaultPartitionStrategy) (\<lambda>serializedPartitionKey.
                 calculatePartitionHash serializedPartitionKey partitioningStrategy))
            else calculatePartitionHash object partitioningStrategy) (\<lambda>hash.
         andThen (writeIntBE dataOutput hash) (\<lambda>afterHash.
         andThen (idOf serializer) (\<lambda>serializerId.
         andThen (writeIntBE afterHash serializerId) (\<lambda>afterHeader.
         andThen (writeWith serializer afterHeader object)
           (\<lambda>out. Inr (JHeapData (out_buffer out))))))))))"
  by pat_completeness auto
termination
  by (relation "measure (\<lambda>(svc, object, strategy). size object)")
     (auto simp: size_partitionKeyOf)

declare toData.simps [simp del]

definition toObject :: "service \<Rightarrow> jsval \<Rightarrow> error + jsval" where
  "toObject svc data =
     (if isNullish data then Inr data
      else andThen (getProp data ''getType'') (\<lambda>getTypeProp.
        if \<not> truthy getTypeProp then Inr data
        else andThen (call0 ''data.getType'' getTypeProp) (\<lambda>typeId.
          (case findSerializerById svc typeId of
             SUndefined \<Rightarrow> Inl (NoSuitableDeserializer typeId)
           | serializer \<Rightarrow>
               andThen (toBuffer data) (\<lambda>b.
               andThen (readWith serializer
                          (ObjectDataInput b DATA_OFFSET (isBigEndian (serializationConfig svc))))
                 (\<lambda>(v, inp). Inr v))))))"

definition writeObject :: "service \<Rightarrow> dataOutput \<Rightarrow> jsval \<Rightarrow> error + dataOutput" where
  "writeObject svc out object =
     andThen (findSerializerFor svc object) (\<lambda>serializer.
     andThen (idOf serializer) (\<lambda>serializerId.
     andThen (writeInt out serializerId) (\<lambda>afterId.
       writeWith serializer afterId object)))"

definition readObject :: "service \<Rightarrow> dataInput \<Rightarrow> error + jsval \<times> dataInput" where
  "readObject svc inp =
     andThen (readInt inp) (\<lambda>(serializerId, inp').
       readWith (findSerializerById svc serializerId) inp')"

section \<open>An instance of the collaborators\<close>

text \<open>
  The theorems below hold for every choice of the collaborators.  To run the service on
  concrete inputs, one instance is fixed here: a kind classifier in the manner of
  \<^verbatim>\<open>typeof\<close>, and for every default codec class an id of its own.  The boolean codec
  writes one byte; every other codec of the instance writes a value in one tagged
  format, with the numbers in the byte order of the cursor.
\<close>

fun kindOf :: "jsval \<Rightarrow> string" where
  "kindOf JUndefined = ''undefined''"
| "kindOf JNull = ''null''"
| "kindOf (JBool b) = ''boolean''"
| "kindOf (JNumber n) = ''number''"
| "kindOf (JString s) = ''string''"
| "kindOf (JFunction n) = ''function''"
| "kindOf (JArray xs) = ''array''"
| "kindOf (JObject c props) = (if c = ''Buffer'' then ''buffer'' else ''object'')"
| "kindOf (JHeapData b) = ''object''"

text \<open>A codec that writes no payload and reads \<^verbatim>\<open>null\<close>; it stands for a codec added later.\<close>

definition emptyCodec :: "int \<Rightarrow> serializer" where
  "emptyCodec i = \<lparr>ser_id = i, ser_write = (\<lambda>out v. Inr out), ser_read = (\<lambda>inp. Inr (JNull, inp))\<rparr>"

definition booleanCodec :: "int \<Rightarrow> serializer" where
  "booleanCodec i =
     \<lparr>ser_id = i,
      ser_write = (\<lambda>out v. case v of
          JBool b \<Rightarrow> Inr (out\<lparr>out_buffer := out_buffer out @ [if b then 1 else 0]\<rparr>)
        | _ \<Rightarrow> Inl (CollaboratorError ''not a boolean'')),
      ser_read = (\<lambda>inp.
          if length (in_buffer inp) \<le> in_pos inp then Inl (CollaboratorError ''end of input'')
          else Inr (JBool (in_buffer inp ! in_pos inp \<noteq> 0), inp\<lparr>in_pos := in_pos inp + 1\<rparr>))\<rparr>"

text \<open>The tagged format: a tag byte, then the parts of the value, lengths first.\<close>

definition encodeInt :: "bool \<Rightarrow> int \<Rightarrow> buffer" where
  "encodeInt be n = (if be then int32BE n else int32LE n)"

definition encodeString :: "bool \<Rightarrow> string \<Rightarrow> buffer" where
  "encodeString be s = encodeInt be (int (length s)) @ map of_char s"

fun encodeValue :: "bool \<Rightarrow> jsval \<Rightarrow> buffer" where
  "encodeValue be JNull = [0]"
| "encodeValue be (JBool b) = [1, if b then 1 else 0]"
| "encodeValue be (JNumber n) = 2 # encodeInt be n"
| "encodeValue be (JString s) = 3 # encodeString be s"
| "encodeValue be (JArray xs) =
     4 # encodeInt be (int (length xs)) @ concat (map (encodeValue be) xs)"
| "encodeValue be (JObject c props) =
     5 # encodeString be c @ encodeInt be (int (length props))
       @ concat (map (\<lambda>p. encodeString be (fst p) @ encodeValue be (snd p)) props)"
| "encodeValue be (JFunction n) = 6 # encodeInt be n"
| "encodeValue be JUndefined = [7]"
| "encodeValue be (JHeapData b) = 8 # encodeInt be (int (length b)) @ b"

definition decodeInt :: "bool \<Rightarrow> buffer \<Rightarrow> (int \<times> buffer) option" where
  "decodeInt be b =
     (if length b < 4 then None
      else Some (if be then readInt32BE b 0 else readInt32LE b 0, drop 4 b))"

definition decodeBytes :: "bool \<Rightarrow> buffer \<Rightarrow> (buffer \<times> buffer) option" where
  "decodeBytes be b =
     Option.bind (decodeInt be b) (\<lambda>(n, r).
       if n < 0 \<or> int (length r) < n then None else Some (take (nat n) r, drop (nat n) r))"

definition decodeString :: "bool \<Rightarrow> buffer \<Rightarrow> (string \<times> buffer) option" where
  "decodeString be b = map_option (\<lambda>(bytes, r). (map (\<lambda>x. char_of (unat x)) bytes, r)) (decodeBytes be b)"

text \<open>
  Reading the format back.  The first argument bounds the number of values read; the
  length of the input is enough, since every value takes at least one byte.
\<close>

fun decodeValue :: "nat \<Rightarrow> bool \<Rightarrow> buffer \<Rightarrow> (jsval \<times> buffer) option"
  and decodeValues :: "nat \<Rightarrow> bool \<Rightarrow> nat \<Rightarrow> buffer \<Rightarrow> (jsval list \<times> buffer) option"
  and decodeProps :: "nat \<Rightarrow> bool \<Rightarrow> nat \<Rightarrow> buffer \<Rightarrow> ((string \<times> jsval) list \<times> buffer) option"
  where
  "decodeValue 0 be b = None"
| "decodeValue (Suc fuel) be [] = None"
| "decodeValue (Suc fuel) be (tag # r) =
     (if tag = 0 then Some (JNull, r)
      else if tag = 1 then
        (if r = [] then None else Some (JBool (hd r \<noteq> 0), tl r))
      else if tag = 2 then map_option (\<lambda>(n, r'). (JNumber n, r')) (decodeInt be r)
      else if tag = 3 then map_option (\<lambda>(s, r'). (JString s, r')) (decodeString be r)
      else if tag = 4 then
        Option.bind (decodeInt be r) (\<lambda>(n, r').
          if n < 0 then None
          else map_option (\<lambda>(xs, r''). (JArray xs, r'')) (decodeValues fuel be (nat n) r'))
      else if tag = 5 then
        Option.bind (decodeString be r) (\<lambda>(c, r').
        Option.bind (decodeInt be r') (\<lambda>(n, r'').
          if n < 0 then None
          else map_option (\<lambda>(ps, r3). (JObject c ps, r3)) (decodeProps fuel be (nat n) r'')))
      else if tag = 6 then map_option (\<lambda>(n, r'). (JFunction n, r')) (decodeInt be r)
      else if tag = 7 then Some (JUndefined, r)
      else if tag = 8 then map_option (\<lambda>(b, r'). (JHeapData b, r')) (decodeBytes be r)
      else None)"
| "decodeValues fuel be 0 b = Some ([], b)"
| "decodeValues 0 be (Suc n) b = None"
| "decodeValues (Suc fuel) be (Suc n) b =
     Option.bind (decodeValue fuel be b) (\<lambda>(x, r).
       map_option (\<lambda>(xs, r'). (x # xs, r')) (decodeValues fuel be n r))"
| "decodeProps fuel be 0 b = Some ([], b)"
| "decodeProps 0 be (Suc n) b = None"
| "decodeProps (Suc fuel) be (Suc n) b =
     Option.bind (decodeString be b) (\<lambda>(k, r).
     Option.bind (decodeValue fuel be r) (\<lambda>(x, r').
       map_option (\<lambda>(ps, r''). ((k, x) # ps, r'')) (decodeProps fuel be n r')))"

definition plainCodec :: "int \<Rightarrow> serializer" where
  "plainCodec i =
     \<lparr>ser_id = i,
      ser_write = (\<lambda>out v.
          Inr (out\<lparr>out_buffer := out_buffer out @ encodeValue (out_isBigEndian out) v\<rparr>)),
      ser_read = (\<lambda>inp.
          case decodeValue (Suc (length (in_buffer inp) - in_pos inp)) (in_isBigEndian inp)
                 (drop (in_pos inp) (in_buffer inp)) of
            None \<Rightarrow> Inl (CollaboratorError ''malformed payload'')
          | Some (v, rest) \<Rightarrow>
              Inr (v, inp\<lparr>in_pos := length (in_buffer inp) - length rest\<rparr>))\<rparr>"

definition exampleIds :: "(string \<times> int) list" where
  "exampleIds =
    [(''NullSerializer'', 0), (''ByteSerializer'', -3), (''BooleanSerializer'', -4),
     (''CharSerializer'', -5), (''ShortSerializer'', -6), (''IntegerSerializer'', -7),
     (''LongSerializer'', -8), (''FloatSerializer'', -9), (''DoubleSerializer'', -10),
     (''StringSerializer'', -11), (''ByteArraySerializer'', -12),
     (''BooleanArraySerializer'', -13), (''CharArraySerializer'', -14),
     (''ShortArraySerializer'', -15), (''IntegerArraySerializer'', -16),
     (''LongArraySerializer'', -17), (''FloatArraySerializer'', -18),
     (''DoubleArraySerializer'', -19), (''StringArraySerializer'', -20),
     (''UuidSerializer'', -21), (''JavaClassSerializer'', -24), (''DateSerializer'', -25),
     (''BigIntSerializer'', -26), (''BigDecimalSerializer'', -27),
     (''JavaArraySerializer'', -28), (''ArrayListSerializer'', -29),
     (''LinkedListSerializer'', -30), (''LocalDateSerializer'', -51),
     (''LocalTimeSerializer'', -52), (''LocalDateTimeSerializer'', -53),
     (''OffsetDateTimeSerializer'', -54), (''JsonSerializer'', -130),
     (''HazelcastJsonValueSerializer'', -130)]"

definition exampleCollaborators :: collaborators where
  "exampleCollaborators =
     \<lparr>getType = kindOf,
      newDefaultSerializer = (\<lambda>cls.
         if cls = ''BooleanSerializer'' then booleanCodec (-4)
         else plainCodec (case map_of exampleIds cls of None \<Rightarrow> 1000 | Some i \<Rightarrow> i)),
      newCompactStreamSerializer = plainCodec (-55),
      newPortableSerializer = plainCodec (-1),
      newIdentifiedSerializer = plainCodec (-2)\<rparr>"

definition defaultConfig :: SerializationConfigImpl where
  "defaultConfig =
     \<lparr>defaultNumberType = ''double'',
      isBigEndian = True,
      jsonStringDeserializationPolicy = EAGER,
      customSerializers = [],
      globalSerializer = None,
      compactSerializers = []\<rparr>"

text \<open>The service that the constructor builds from the instance and the default options.\<close>

definition exampleService :: service where
  "exampleService = projr (SerializationServiceV1 exampleCollaborators defaultConfig)"

text \<open>The same construction with the little-endian option.\<close>

definition littleEndianService :: service where
  "littleEndianService =
     projr (SerializationServiceV1 exampleCollaborators (defaultConfig\<lparr>isBigEndian := False\<rparr>))"

text \<open>
  A strategy that tells an envelope from any other value: the length of the envelope,
  and 77 otherwise.
\<close>

definition lengthStrategy :: PartitionStrategy where
  "lengthStrategy v = (case v of JHeapData b \<Rightarrow> Inr (int (length b)) | _ \<Rightarrow> Inr 77)"

text \<open>
  Three values with a structural shape: a generic compact record; a buffer that also
  has the methods and ids of both polymorphic formats; an object with those of the
  portable format.  And a plain object with a partition key.
\<close>

definition recordValue :: jsval where
  "recordValue = JObject ''CompactGenericRecordImpl'' [(''name'', JString ''a'')]"

definition identifiedValue :: jsval where
  "identifiedValue = JObject ''Buffer''
     [(''readData'', JFunction 0), (''writeData'', JFunction 0),
      (''readPortable'', JFunction 0), (''writePortable'', JFunction 0),
      (''factoryId'', JNumber 1), (''classId'', JNumber 2)]"

definition portableValue :: jsval where
  "portableValue = JObject ''Object''
     [(''readPortable'', JFunction 0), (''writePortable'', JFunction 0),
      (''factoryId'', JNumber 1), (''classId'', JNumber 2)]"

definition keyedValue :: jsval where
  "keyedValue = JObject ''Object'' [(''partitionKey'', JBool True)]"



section \<open>The notions of the specification\<close>

text \<open>
  The registry lookup of the specification, \<open>lookupByName\<close> without normalization: the
  codec registered under a name, \<^verbatim>\<open>null\<close> when the name is not registered.
\<close>

definition codecNamed :: "service \<Rightarrow> string \<Rightarrow> serializer_ref" where
  "codecNamed svc name =
     (case serializerNameToId svc name of None \<Rightarrow> SNull | Some i \<Rightarrow> findSerializerById svc i)"

text \<open>
  The normalization of the specification: the logical name \<^verbatim>\<open>number\<close> stands for the
  configured default number kind, the name \<^verbatim>\<open>buffer\<close> for the byte-array codec.
\<close>

definition normalizedName :: "service \<Rightarrow> string \<Rightarrow> string" where
  "normalizedName svc name =
     (if name = ''number'' then defaultNumberType (serializationConfig svc)
      else if name = ''buffer'' then ''byteArray'' else name)"

text \<open>
  The partition hash of the specification: when the value has a partition key that is
  neither \<^verbatim>\<open>null\<close> nor \<^verbatim>\<open>undefined\<close>, the strategy applied to the envelope of the key,
  and otherwise the strategy applied to the value.
\<close>

definition partitionHashFor :: "service \<Rightarrow> jsval \<Rightarrow> PartitionStrategy \<Rightarrow> error + int" where
  "partitionHashFor svc object strategy =
     (if \<not> isNullish object \<and> \<not> isNullish (partitionKeyOf object)
      then andThen (toData svc (partitionKeyOf object) defaultPartitionStrategy) strategy
      else strategy object)"

text \<open>
  Modelled from the spec: the codec contract (section 4.1), for the codecs themselves
  are not among the sources.  For a value \<open>v\<close>, \<open>write\<close> appends payload bytes to the
  cursor and never writes the header, and \<open>read\<close>, started where the payload starts and
  in the same byte order, returns a value equal to \<open>v\<close>.  Values of \<open>jsval\<close> are compared
  by structure, which is the deep equality of the specification.
\<close>

definition codecContract :: "serializer \<Rightarrow> jsval \<Rightarrow> bool" where
  "codecContract s v \<longleftrightarrow>
     (\<forall>out. \<exists>payload inp'.
        ser_write s out v = Inr (out\<lparr>out_buffer := out_buffer out @ payload\<rparr>)
        \<and> ser_read s \<lparr>in_buffer = out_buffer out @ payload, in_pos = length (out_buffer out),
                       in_isBigEndian = out_isBigEndian out\<rparr> = Inr (v, inp'))"








section \<open>Invariants of the registry\<close>





section \<open>Basic facts\<close>

lemma andThen_Inr [simp]: "andThen (Inr x) f = f x"
  by (simp add: andThen_def)

lemma andThen_Inl [simp]: "andThen (Inl e) f = Inl e"
  by (simp add: andThen_def)

lemma andThen_Inr_iff: "andThen m f = Inr y \<longleftrightarrow> (\<exists>x. m = Inr x \<and> f x = Inr y)"
  by (cases m) simp_all

lemma toData_passThrough: "isData v \<Longrightarrow> toData svc v st = Inr v"
  by (simp add: toData.simps)

lemma toData_isData: "toData svc v st = Inr d \<Longrightarrow> isData d"
  by (cases "isData v") (auto simp: toData.simps [of svc v st] Let_def andThen_Inr_iff)





lemma idOf_Inr_iff: "idOf r = Inr i \<longleftrightarrow> (\<exists>s. r = SObj s \<and> ser_id s = i)"
  by (cases r) auto

lemma writeIntBE_Inr_iff:
  "writeIntBE out n = Inr out' \<longleftrightarrow> inInt32 n \<and> out' = out\<lparr>out_buffer := out_buffer out @ int32BE n\<rparr>"
  by (auto simp: writeIntBE_def)

lemma writeInt_Inr_iff:
  "writeInt out n = Inr out' \<longleftrightarrow>
     inInt32 n \<and> out' = out\<lparr>out_buffer := out_buffer out
                 @ (if out_isBigEndian out then int32BE n else int32LE n)\<rparr>"
  by (auto simp: writeInt_def)

lemma toData_run:
  assumes "\<not> isData obj"
  shows "toData svc obj st = Inr d \<longleftrightarrow>
    (\<exists>s h out. findSerializerFor svc obj = Inr (SObj s)
       \<and> partitionHashFor svc obj st = Inr h \<and> inInt32 h \<and> inInt32 (ser_id s)
       \<and> ser_write s \<lparr>out_buffer = int32BE h @ int32BE (ser_id s),
                       out_isBigEndian = isBigEndian (serializationConfig svc)\<rparr> obj = Inr out
       \<and> d = JHeapData (out_buffer out))"
  using assms
  apply (subst toData.simps)
  apply (simp add: Let_def andThen_Inr_iff partitionHashFor_def calculatePartitionHash_def
      idOf_Inr_iff writeIntBE_Inr_iff PositionalObjectDataOutput_def)
  apply (auto simp: andThen_Inr_iff)
  done

lemma defaultPartitionStrategy_cases:
  "(isNullish v1 \<longrightarrow> defaultPartitionStrategy v1 = Inr 0)
   \<and> (\<not> isNullish v2 \<and> getProp v2 ''getPartitionHash'' = Inr f \<and> \<not> truthy f \<longrightarrow>
        defaultPartitionStrategy v2 = Inr 0)
   \<and> (getProp v3 ''getPartitionHash'' = Inr (JFunction n) \<longrightarrow> defaultPartitionStrategy v3 = Inr n)"
  by (cases v3) (auto simp: defaultPartitionStrategy_def)

lemma isCompact_Inr_not_nullish: "isCompactSerializable svc obj = Inr b \<Longrightarrow> \<not> isNullish obj"
  by (cases obj) (auto simp: isCompactSerializable_def)

lemma findSerializerFor_default:
  "lookupDefaultSerializer svc obj = Inr (SObj s) \<Longrightarrow> \<not> isNullish obj \<Longrightarrow>
   findSerializerFor svc obj = Inr (SObj s)"
  by (cases obj) (simp_all add: findSerializerFor_def)

lemma findSerializerByName_codecNamed:
  "findSerializerByName svc name isArray =
     codecNamed svc (normalizedName svc name @ (if isArray then ''Array'' else []))"
  by (simp add: findSerializerByName_def codecNamed_def normalizedName_def Let_def)

section \<open>What construction establishes\<close>








section \<open>The header of an envelope\<close>

lemma bytes_join:
  "push_bit 24 (ucast (ucast (drop_bit 24 w :: 32 word) :: 8 word) :: 32 word)
     OR push_bit 16 (ucast (ucast (drop_bit 16 w) :: 8 word))
     OR push_bit 8 (ucast (ucast (drop_bit 8 w) :: 8 word))
     OR ucast (ucast w :: 8 word) = w" for w :: "32 word"
proof (rule bit_word_eqI)
  fix n :: nat
  assume n: "n < LENGTH(32)"
  consider "n < 8" | "8 \<le> n" "n < 16" | "16 \<le> n" "n < 24" | "24 \<le> n" "n < 32"
    using n by fastforce
  then show "bit (push_bit 24 (ucast (ucast (drop_bit 24 w :: 32 word) :: 8 word) :: 32 word)
      OR push_bit 16 (ucast (ucast (drop_bit 16 w) :: 8 word))
      OR push_bit 8 (ucast (ucast (drop_bit 8 w) :: 8 word))
      OR ucast (ucast w :: 8 word)) n = bit w n"
    by cases (auto simp add: bit_simps)
qed

lemma length_int32BE [simp]: "length (int32BE n) = 4"
  by (simp add: int32BE_def Let_def)

lemma readInt32BE_append:
  "readInt32BE (pre @ int32BE n @ post) (length pre) = sint (word_of_int n :: 32 word)"
  by (simp add: readInt32BE_def int32BE_def byteAt_def Let_def nth_append bytes_join)

lemma sint_int32: "- (2 ^ 31) \<le> n \<Longrightarrow> n < 2 ^ 31 \<Longrightarrow> sint (word_of_int n :: 32 word) = n"
  by (simp add: signed_of_int signed_take_bit_int_eq_self)

lemma HeapData_getType_header:
  assumes "- (2 ^ 31) \<le> i" and "i < 2 ^ 31"
  shows "HeapData_getType (int32BE h @ int32BE i @ p) = i"
proof -
  have "readInt32BE (int32BE h @ int32BE i @ p) (length (int32BE h)) = sint (word_of_int i :: 32 word)"
    by (rule readInt32BE_append)
  with assms show ?thesis
    by (simp add: HeapData_getType_def TYPE_OFFSET_def sint_int32)
qed








lemma booleanCodec_contract: "codecContract (booleanCodec i) (JBool b)"
  unfolding codecContract_def
proof (intro allI)
  fix out
  have "ser_write (booleanCodec i) out (JBool b)
          = Inr (out\<lparr>out_buffer := out_buffer out @ [if b then 1 else 0]\<rparr>)
      \<and> ser_read (booleanCodec i)
            \<lparr>in_buffer = out_buffer out @ [if b then 1 else 0], in_pos = length (out_buffer out),
               in_isBigEndian = out_isBigEndian out\<rparr>
          = Inr (JBool b, \<lparr>in_buffer = out_buffer out @ [if b then 1 else 0],
               in_pos = length (out_buffer out) + 1, in_isBigEndian = out_isBigEndian out\<rparr>)"
    by (simp add: booleanCodec_def)
  then show "\<exists>payload inp'.
      ser_write (booleanCodec i) out (JBool b) = Inr (out\<lparr>out_buffer := out_buffer out @ payload\<rparr>)
      \<and> ser_read (booleanCodec i)
            \<lparr>in_buffer = out_buffer out @ payload, in_pos = length (out_buffer out),
               in_isBigEndian = out_isBigEndian out\<rparr> = Inr (JBool b, inp')"
    by blast
qed

lemma HeapData_getPartitionHash_header:
  assumes "inInt32 h"
  shows "HeapData_getPartitionHash (int32BE h @ rest) = h"
proof -
  have "readInt32BE ([] @ int32BE h @ rest) (length ([] :: buffer)) = sint (word_of_int h :: 32 word)"
    by (rule readInt32BE_append)
  with assms show ?thesis
    by (simp add: HeapData_getPartitionHash_def PARTITION_HASH_OFFSET_def sint_int32 inInt32_def)
qed

lemma int32BE_inject:
  assumes "inInt32 a" and "inInt32 b" and "int32BE a = int32BE b"
  shows "a = b"
proof -
  have "HeapData_getPartitionHash (int32BE a @ []) = HeapData_getPartitionHash (int32BE b @ [])"
    using assms(3) by simp
  with assms(1,2) show ?thesis
    by (simp only: HeapData_getPartitionHash_header)
qed

section \<open>The resolver on the kinds of the specification\<close>












section \<open>The envelope of a served value\<close>





section \<open>The codecs of the instance\<close>






section \<open>Round trip\<close>



section \<open>Byte order of the header\<close>

text \<open>
  Claim C2 says that a little-endian facade writes the two header fields little-endian
  as well.  It does not: the service built with \<^verbatim>\<open>isBigEndian = false\<close> serializes
  \<^verbatim>\<open>true\<close>, under a strategy that gives the hash 1, with the header bytes
  \<^verbatim>\<open>00 00 00 01\<close> and \<^verbatim>\<open>ff ff ff fc\<close> (the id -4), which is big-endian; little-endian
  they would be \<^verbatim>\<open>01 00 00 00\<close> and \<^verbatim>\<open>fc ff ff ff\<close>.
\<close>

theorem header_byte_order_counterexample:
  "isBigEndian (serializationConfig littleEndianService) = False
   \<and> toData littleEndianService (JBool True) (\<lambda>v. Inr 1)
       = Inr (JHeapData ([0, 0, 0, 1] @ [255, 255, 255, 252] @ [1]))
   \<and> int32LE 1 = [1, 0, 0, 0]
   \<and> int32LE (- 4) = [252, 255, 255, 255]"
  by code_simp

text \<open>
  Claim C2, amended.  \<^verbatim>\<open>toData\<close> writes the partition hash and the type id big-endian
  whatever \<^verbatim>\<open>isBigEndian\<close> is: for a value that is not an envelope it returns an envelope
  exactly when the resolver gives a codec \<open>s\<close>, the partition hash \<open>h\<close> (the strategy
  applied to the envelope of the partition key, or to the value when there is no key)
  and the id of \<open>s\<close> are 32-bit integers, and the codec accepts the value on a cursor
  that holds the big-endian bytes of \<open>h\<close> followed by the big-endian bytes of the id;
  the envelope is what the codec leaves in the cursor.  The configured order is the
  order of that cursor, which the codec writes the payload in.  \<^verbatim>\<open>writeObject\<close> writes
  the type id in the order of the cursor it is given.  The big-endian bytes determine
  the number, and the accessors of an envelope read the two fields back big-endian.
\<close>

theorem header_big_endian_payload_configured:
  "(\<not> isData obj \<longrightarrow>
      (toData svc obj strategy = Inr d) =
      (\<exists>h s out.
         (if \<not> isNullish obj \<and> \<not> isNullish (partitionKeyOf obj)
          then \<exists>k. toData svc (partitionKeyOf obj) defaultPartitionStrategy = Inr k
                 \<and> strategy k = Inr h
          else strategy obj = Inr h)
         \<and> inInt32 h
         \<and> findSerializerFor svc obj = Inr (SObj s) \<and> inInt32 (ser_id s)
         \<and> ser_write s \<lparr>out_buffer = int32BE h @ int32BE (ser_id s),
                         out_isBigEndian = isBigEndian (serializationConfig svc)\<rparr> obj = Inr out
         \<and> d = JHeapData (out_buffer out)))
   \<and> ((writeObject svc cursor obj = Inr cursor') =
      (\<exists>s. findSerializerFor svc obj = Inr (SObj s) \<and> inInt32 (ser_id s)
         \<and> ser_write s
              (cursor\<lparr>out_buffer := out_buffer cursor
                  @ (if out_isBigEndian cursor then int32BE (ser_id s) else int32LE (ser_id s))\<rparr>)
              obj = Inr cursor'))
   \<and> (inInt32 a \<and> inInt32 b \<and> int32BE a = int32BE b \<longrightarrow> a = b)
   \<and> (inInt32 a \<and> inInt32 b \<longrightarrow>
        HeapData_getPartitionHash (int32BE a @ int32BE b @ payload) = a
        \<and> HeapData_getType (int32BE a @ int32BE b @ payload) = b)"
proof (intro conjI impI)
  assume "\<not> isData obj"
  then have "toData svc obj strategy = Inr d \<longleftrightarrow>
      (\<exists>s h out. findSerializerFor svc obj = Inr (SObj s)
         \<and> partitionHashFor svc obj strategy = Inr h \<and> inInt32 h \<and> inInt32 (ser_id s)
         \<and> ser_write s \<lparr>out_buffer = int32BE h @ int32BE (ser_id s),
                         out_isBigEndian = isBigEndian (serializationConfig svc)\<rparr> obj = Inr out
         \<and> d = JHeapData (out_buffer out))"
    by (rule toData_run)
  moreover have "partitionHashFor svc obj strategy = Inr h \<longleftrightarrow>
      (if \<not> isNullish obj \<and> \<not> isNullish (partitionKeyOf obj)
       then \<exists>k. toData svc (partitionKeyOf obj) defaultPartitionStrategy = Inr k
              \<and> strategy k = Inr h
       else strategy obj = Inr h)" for h
    by (simp add: partitionHashFor_def andThen_Inr_iff)
  ultimately show "(toData svc obj strategy = Inr d) =
      (\<exists>h s out.
         (if \<not> isNullish obj \<and> \<not> isNullish (partitionKeyOf obj)
          then \<exists>k. toData svc (partitionKeyOf obj) defaultPartitionStrategy = Inr k
                 \<and> strategy k = Inr h
          else strategy obj = Inr h)
         \<and> inInt32 h
         \<and> findSerializerFor svc obj = Inr (SObj s) \<and> inInt32 (ser_id s)
         \<and> ser_write s \<lparr>out_buffer = int32BE h @ int32BE (ser_id s),
                         out_isBigEndian = isBigEndian (serializationConfig svc)\<rparr> obj = Inr out
         \<and> d = JHeapData (out_buffer out))"
    by (simp only:) blast
next
  show "(writeObject svc cursor obj = Inr cursor') =
      (\<exists>s. findSerializerFor svc obj = Inr (SObj s) \<and> inInt32 (ser_id s)
         \<and> ser_write s
              (cursor\<lparr>out_buffer := out_buffer cursor
                  @ (if out_isBigEndian cursor then int32BE (ser_id s) else int32LE (ser_id s))\<rparr>)
              obj = Inr cursor')"
    by (auto simp: writeObject_def andThen_Inr_iff idOf_Inr_iff writeInt_Inr_iff)
next
  assume "inInt32 a \<and> inInt32 b \<and> int32BE a = int32BE b"
  then show "a = b"
    by (blast intro: int32BE_inject)
next
  assume "inInt32 a \<and> inInt32 b"
  then show "HeapData_getPartitionHash (int32BE a @ int32BE b @ payload) = a"
    by (simp add: HeapData_getPartitionHash_header)
next
  assume "inInt32 a \<and> inInt32 b"
  then show "HeapData_getType (int32BE a @ int32BE b @ payload) = b"
    by (simp add: HeapData_getType_header inInt32_def)
qed

theorem header_big_endian_payload_configured_witness:
  "toData littleEndianService (JBool True) (\<lambda>v. Inr 1)
     = Inr (JHeapData (int32BE 1 @ int32BE (- 4) @ [1]))
   \<and> writeObject littleEndianService (PositionalObjectDataOutput False) (JBool True)
     = Inr \<lparr>out_buffer = int32LE (- 4) @ [1], out_isBigEndian = False\<rparr>
   \<and> HeapData_getPartitionHash (int32BE 1 @ int32BE (- 4) @ [1]) = 1
   \<and> HeapData_getType (int32BE 1 @ int32BE (- 4) @ [1]) = - 4
   \<and> int32BE 1 \<noteq> int32BE (- 4)"
proof -
  have d: "\<not> isData (JBool True)"
    "toData littleEndianService (JBool True) (\<lambda>v. Inr 1)
      = Inr (JHeapData [0, 0, 0, 1, 255, 255, 255, 252, 1])"
    by code_simp+
  have w: "writeObject littleEndianService (PositionalObjectDataOutput False) (JBool True)
      = Inr \<lparr>out_buffer = [252, 255, 255, 255, 1], out_isBigEndian = False\<rparr>"
    by code_simp
  have b: "int32BE 1 = [0, 0, 0, 1]" "int32BE (- 4) = [255, 255, 255, 252]"
    "int32LE (- 4) = [252, 255, 255, 255]" "inInt32 1 \<and> inInt32 (- 4)"
    by code_simp+
  show ?thesis
    using header_big_endian_payload_configured [of "JBool True" littleEndianService "\<lambda>v. Inr 1"
        "JHeapData [0, 0, 0, 1, 255, 255, 255, 252, 1]" "PositionalObjectDataOutput False"
        "\<lparr>out_buffer = [252, 255, 255, 255, 1], out_isBigEndian = False\<rparr>" 1 "- 4" "[1]"] d w b
    by simp
qed

section \<open>Precedence of the structural codecs\<close>

text \<open>
  Claim C4.  A value for which the compact test holds resolves to the compact codec; a
  value for which it fails and the factory-based test (\<^verbatim>\<open>readData\<close>, \<^verbatim>\<open>writeData\<close>, numeric
  \<^verbatim>\<open>factoryId\<close> and \<^verbatim>\<open>classId\<close>) holds resolves to the identified codec; a value for which
  both fail and the portable test holds resolves to the portable codec.  The result is
  the structural codec itself, whatever \<^verbatim>\<open>Util.getType\<close> says about the value and
  whatever is registered under the kind names, \<^verbatim>\<open>!global\<close> and \<^verbatim>\<open>!json\<close>: the three tests
  come, in this order, before the classification by kind name.
\<close>

theorem structural_codecs_first:
  "(isCompactSerializable svc c = Inr True \<longrightarrow>
      findSerializerFor svc c = Inr (SObj (compactStreamSerializer svc)))
   \<and> (isCompactSerializable svc i = Inr False \<and> isIdentifiedDataSerializable i = Inr True \<longrightarrow>
      findSerializerFor svc i = Inr (SObj (identifiedSerializer svc)))
   \<and> (isCompactSerializable svc p = Inr False \<and> isIdentifiedDataSerializable p = Inr False
      \<and> isPortableSerializable p = Inr True \<longrightarrow>
      findSerializerFor svc p = Inr (SObj (portableSerializer svc)))"
proof (intro conjI impI)
  assume "isCompactSerializable svc c = Inr True"
  then show "findSerializerFor svc c = Inr (SObj (compactStreamSerializer svc))"
    by (intro findSerializerFor_default isCompact_Inr_not_nullish [of svc c True])
       (simp_all add: lookupDefaultSerializer_def)
next
  assume "isCompactSerializable svc i = Inr False \<and> isIdentifiedDataSerializable i = Inr True"
  then show "findSerializerFor svc i = Inr (SObj (identifiedSerializer svc))"
    by (intro findSerializerFor_default isCompact_Inr_not_nullish [of svc i False])
       (simp_all add: lookupDefaultSerializer_def)
next
  assume "isCompactSerializable svc p = Inr False \<and> isIdentifiedDataSerializable p = Inr False
      \<and> isPortableSerializable p = Inr True"
  then show "findSerializerFor svc p = Inr (SObj (portableSerializer svc))"
    by (intro findSerializerFor_default isCompact_Inr_not_nullish [of svc p False])
       (simp_all add: lookupDefaultSerializer_def)
qed

theorem structural_codecs_first_witness:
  "andThen (findSerializerFor exampleService recordValue) idOf = Inr (- 55)
   \<and> andThen (findSerializerFor exampleService identifiedValue) idOf = Inr (- 2)
   \<and> andThen (findSerializerFor exampleService portableValue) idOf = Inr (- 1)"
proof -
  have c: "isCompactSerializable exampleService recordValue = Inr True"
    and i: "isCompactSerializable exampleService identifiedValue = Inr False
            \<and> isIdentifiedDataSerializable identifiedValue = Inr True"
    and p: "isCompactSerializable exampleService portableValue = Inr False
            \<and> isIdentifiedDataSerializable portableValue = Inr False
            \<and> isPortableSerializable portableValue = Inr True"
    by code_simp+
  have ids: "ser_id (compactStreamSerializer exampleService) = - 55"
    "ser_id (identifiedSerializer exampleService) = - 2"
    "ser_id (portableSerializer exampleService) = - 1"
    by code_simp+
  show ?thesis
    using structural_codecs_first [of exampleService recordValue identifiedValue portableValue]
      c i p ids
    by simp
qed

section \<open>Classification by runtime kind\<close>

text \<open>
  Claim C5.  For a value that none of the three structural tests accepts:
  when \<^verbatim>\<open>Util.getType\<close> names it an array and its length is 0, the default lookup
  gives the codec registered under the configured default number kind followed by
  \<^verbatim>\<open>Array\<close>; when it is an array of another length, the codec registered under the
  (normalized) kind name of its first element followed by \<^verbatim>\<open>Array\<close>; when it is not an
  array, the codec registered under its own normalized kind name.  The name \<^verbatim>\<open>number\<close>
  is looked up as the configured \<^verbatim>\<open>defaultNumberType\<close> and \<^verbatim>\<open>buffer\<close> as \<^verbatim>\<open>byteArray\<close>.
\<close>

theorem kind_classification:
  "(isCompactSerializable svc e = Inr False \<and> isIdentifiedDataSerializable e = Inr False
      \<and> isPortableSerializable e = Inr False
      \<and> Util_getType svc e = ''array'' \<and> getProp e ''length'' = Inr (JNumber 0) \<longrightarrow>
      lookupDefaultSerializer svc e
        = Inr (codecNamed svc (defaultNumberType (serializationConfig svc) @ ''Array'')))
   \<and> (isCompactSerializable svc a = Inr False \<and> isIdentifiedDataSerializable a = Inr False
      \<and> isPortableSerializable a = Inr False
      \<and> Util_getType svc a = ''array'' \<and> getProp a ''length'' = Inr len \<and> len \<noteq> JNumber 0
      \<and> getFirst a = Inr x \<longrightarrow>
      lookupDefaultSerializer svc a
        = Inr (codecNamed svc (normalizedName svc (Util_getType svc x) @ ''Array'')))
   \<and> (isCompactSerializable svc v = Inr False \<and> isIdentifiedDataSerializable v = Inr False
      \<and> isPortableSerializable v = Inr False \<and> Util_getType svc v \<noteq> ''array'' \<longrightarrow>
      lookupDefaultSerializer svc v
        = Inr (codecNamed svc (normalizedName svc (Util_getType svc v))))
   \<and> normalizedName svc ''number'' = defaultNumberType (serializationConfig svc)
   \<and> normalizedName svc ''buffer'' = ''byteArray''
   \<and> findSerializerByName svc ''number'' False
        = codecNamed svc (defaultNumberType (serializationConfig svc))
   \<and> findSerializerByName svc ''buffer'' False = codecNamed svc ''byteArray''"
  by (simp add: lookupDefaultSerializer_def findSerializerByName_codecNamed Let_def
      normalizedName_def)

theorem kind_classification_witness:
  "andThen (lookupDefaultSerializer exampleService (JArray [])) idOf = Inr (- 19)
   \<and> andThen (lookupDefaultSerializer exampleService (JArray [JBool True, JBool False])) idOf
       = Inr (- 13)
   \<and> andThen (lookupDefaultSerializer exampleService (JNumber 14)) idOf = Inr (- 10)
   \<and> idOf (findSerializerByName exampleService ''number'' False) = Inr (- 10)
   \<and> idOf (findSerializerByName exampleService ''buffer'' False) = Inr (- 12)"
proof -
  have e: "isCompactSerializable exampleService (JArray []) = Inr False
      \<and> isIdentifiedDataSerializable (JArray []) = Inr False
      \<and> isPortableSerializable (JArray []) = Inr False
      \<and> Util_getType exampleService (JArray []) = ''array''
      \<and> getProp (JArray []) ''length'' = Inr (JNumber 0)"
    by code_simp
  have a: "isCompactSerializable exampleService (JArray [JBool True, JBool False]) = Inr False
      \<and> isIdentifiedDataSerializable (JArray [JBool True, JBool False]) = Inr False
      \<and> isPortableSerializable (JArray [JBool True, JBool False]) = Inr False
      \<and> Util_getType exampleService (JArray [JBool True, JBool False]) = ''array''
      \<and> getProp (JArray [JBool True, JBool False]) ''length'' = Inr (JNumber 2)
      \<and> JNumber 2 \<noteq> JNumber 0
      \<and> getFirst (JArray [JBool True, JBool False]) = Inr (JBool True)"
    by code_simp
  have v: "isCompactSerializable exampleService (JNumber 14) = Inr False
      \<and> isIdentifiedDataSerializable (JNumber 14) = Inr False
      \<and> isPortableSerializable (JNumber 14) = Inr False
      \<and> Util_getType exampleService (JNumber 14) \<noteq> ''array''"
    by code_simp
  have n: "normalizedName exampleService (Util_getType exampleService (JBool True)) = ''boolean''"
    "normalizedName exampleService (Util_getType exampleService (JNumber 14)) = ''double''"
    "defaultNumberType (serializationConfig exampleService) = ''double''"
    by code_simp+
  have ids: "idOf (codecNamed exampleService ''doubleArray'') = Inr (- 19)"
    "idOf (codecNamed exampleService ''booleanArray'') = Inr (- 13)"
    "idOf (codecNamed exampleService ''double'') = Inr (- 10)"
    "idOf (codecNamed exampleService ''byteArray'') = Inr (- 12)"
    by code_simp+
  show ?thesis
    using kind_classification [of exampleService "JArray []" "JArray [JBool True, JBool False]"
        "JNumber 2" "JBool True" "JNumber 14"] e a v n ids
    by simp
qed

section \<open>The partition hash\<close>

text \<open>
  Claim C6.  Let \<^verbatim>\<open>toData\<close> return an envelope for a value that is not itself an
  envelope.  Then a hash \<open>h\<close> was computed and written as the first header field (the
  codec is handed a cursor that holds \<open>h\<close> and the codec's id, both big-endian, and the
  envelope is what the codec leaves in the cursor), where: if the value is not
  \<^verbatim>\<open>null\<close> and its \<^verbatim>\<open>partitionKey\<close> is neither \<^verbatim>\<open>null\<close> nor \<^verbatim>\<open>undefined\<close>, \<open>h\<close> is the
  strategy applied to the envelope that \<^verbatim>\<open>toData\<close> (with the default strategy) makes of
  the key; otherwise \<open>h\<close> is the strategy applied to the value.  The default strategy
  gives 0 for \<^verbatim>\<open>null\<close> and \<^verbatim>\<open>undefined\<close> and for a value without a truthy
  \<^verbatim>\<open>getPartitionHash\<close>, and the result of \<^verbatim>\<open>getPartitionHash()\<close> otherwise.
\<close>

theorem partition_hash_source:
  assumes "\<not> isData obj" and "toData svc obj strategy = Inr d"
  shows "(\<exists>h s out.
      (if \<not> isNullish obj \<and> \<not> isNullish (partitionKeyOf obj)
       then \<exists>k. toData svc (partitionKeyOf obj) defaultPartitionStrategy = Inr k \<and> strategy k = Inr h
       else strategy obj = Inr h)
      \<and> findSerializerFor svc obj = Inr (SObj s)
      \<and> ser_write s \<lparr>out_buffer = int32BE h @ int32BE (ser_id s),
                      out_isBigEndian = isBigEndian (serializationConfig svc)\<rparr> obj = Inr out
      \<and> d = JHeapData (out_buffer out))
    \<and> (isNullish v1 \<longrightarrow> defaultPartitionStrategy v1 = Inr 0)
    \<and> (\<not> isNullish v2 \<and> getProp v2 ''getPartitionHash'' = Inr f \<and> \<not> truthy f \<longrightarrow>
         defaultPartitionStrategy v2 = Inr 0)
    \<and> (getProp v3 ''getPartitionHash'' = Inr (JFunction n) \<longrightarrow>
         defaultPartitionStrategy v3 = Inr n)"
proof -
  from assms obtain s h out where
    s: "findSerializerFor svc obj = Inr (SObj s)" and
    h: "partitionHashFor svc obj strategy = Inr h" and
    w: "ser_write s \<lparr>out_buffer = int32BE h @ int32BE (ser_id s),
                      out_isBigEndian = isBigEndian (serializationConfig svc)\<rparr> obj = Inr out" and
    d: "d = JHeapData (out_buffer out)"
    by (auto simp: toData_run)
  from h have "if \<not> isNullish obj \<and> \<not> isNullish (partitionKeyOf obj)
       then \<exists>k. toData svc (partitionKeyOf obj) defaultPartitionStrategy = Inr k \<and> strategy k = Inr h
       else strategy obj = Inr h"
    by (auto simp: partitionHashFor_def andThen_Inr_iff split: if_splits)
  with s w d defaultPartitionStrategy_cases [of v1 v2 f v3 n] show ?thesis
    by blast
qed

theorem partition_hash_source_witness:
  "toData exampleService keyedValue lengthStrategy
     = Inr (JHeapData ([0, 0, 0, 9] @ [255, 255, 255, 126] @ encodeValue True keyedValue))
   \<and> toData exampleService (JBool True) defaultPartitionStrategy
     = Inr (JHeapData ([0, 0, 0, 0] @ [255, 255, 255, 252] @ [1]))
   \<and> lengthStrategy (JHeapData ([0, 0, 0, 0] @ [255, 255, 255, 252] @ [1])) = Inr 9
   \<and> lengthStrategy keyedValue = Inr 77
   \<and> defaultPartitionStrategy JNull = Inr 0
   \<and> defaultPartitionStrategy (JNumber 3) = Inr 0
   \<and> defaultPartitionStrategy (JObject ''Key'' [(''getPartitionHash'', JFunction 42)]) = Inr 42"
proof -
  have o: "\<not> isData keyedValue"
    by (simp add: keyedValue_def)
  have d: "toData exampleService keyedValue lengthStrategy
      = Inr (JHeapData ([0, 0, 0, 9, 255, 255, 255, 126] @ encodeValue True keyedValue))"
    by code_simp
  have k: "toData exampleService (JBool True) defaultPartitionStrategy
      = Inr (JHeapData [0, 0, 0, 0, 255, 255, 255, 252, 1])"
    by code_simp
  have l: "lengthStrategy (JHeapData [0, 0, 0, 0, 255, 255, 255, 252, 1]) = Inr 9"
    "lengthStrategy keyedValue = Inr 77"
    by (simp_all add: lengthStrategy_def keyedValue_def)
  show ?thesis
    using partition_hash_source [OF o d, of JNull "JNumber 3" JUndefined
        "JObject ''Key'' [(''getPartitionHash'', JFunction 42)]" 42] d k l
    by simp
qed

section \<open>Idempotence of \<^verbatim>\<open>toData\<close>\<close>

text \<open>
  Claim C8.  \<^verbatim>\<open>toData(toData(v))\<close> equals \<^verbatim>\<open>toData(v)\<close> for every value \<open>v\<close>, every
  service and every pair of strategies: the result of \<^verbatim>\<open>toData\<close> is a \<^verbatim>\<open>HeapData\<close>, and
  \<^verbatim>\<open>toData\<close> returns a \<^verbatim>\<open>HeapData\<close> argument unchanged.  When the inner call raises, the
  composition raises the same error.
\<close>

theorem toData_idempotent:
  "andThen (toData svc v strategy) (\<lambda>d. toData svc d strategy') = toData svc v strategy"
proof (cases "toData svc v strategy")
  case (Inl e)
  then show ?thesis by simp
next
  case (Inr d)
  then have "isData d" by (rule toData_isData)
  then have "toData svc d strategy' = Inr d" by (rule toData_passThrough)
  with Inr show ?thesis by simp
qed

section \<open>The pass-through tests of \<^verbatim>\<open>toObject\<close> and \<^verbatim>\<open>toData\<close>\<close>




section \<open>Where the code leaves the specification\<close>

text \<open>
  Claim C3 says that resolution gives a codec for every value but \<^verbatim>\<open>undefined\<close>, and that
  a value tagged with an \<^verbatim>\<open>hzCustomId\<close> that no codec is registered for falls through to
  the global codec and then to the JSON codec.  In the code
  \<^verbatim>\<open>lookupCustomSerializer\<close> returns \<^verbatim>\<open>this.registry[obj.hzCustomId]\<close>, which is \<^verbatim>\<open>undefined\<close>
  for such a tag, and the later steps of \<^verbatim>\<open>findSerializerFor\<close> only run while the
  reference is \<^verbatim>\<open>=== null\<close>.  On the service built with the default options, where the
  JSON codec is registered, \<^verbatim>\<open>findSerializerFor\<close> returns, without raising, a reference
  whose \<^verbatim>\<open>id\<close> cannot be read, for the plain object \<^verbatim>\<open>{hzCustomId: 5}\<close>; \<^verbatim>\<open>toData\<close> then
  raises a \<^verbatim>\<open>TypeError\<close>.
\<close>

theorem unregistered_custom_tag_resolves_to_undefined:
  "\<not> isl (findSerializerFor exampleService (JObject ''Object'' [(''hzCustomId'', JNumber 5)]))
   \<and> andThen (findSerializerFor exampleService (JObject ''Object'' [(''hzCustomId'', JNumber 5)])) idOf
       = Inl (TypeError ''Cannot read properties of undefined (reading id)'')
   \<and> toData exampleService (JObject ''Object'' [(''hzCustomId'', JNumber 5)]) defaultPartitionStrategy
       = Inl (TypeError ''Cannot read properties of undefined (reading id)'')
   \<and> registry exampleService 5 = None
   \<and> idOf (findSerializerByName exampleService ''!json'' False) = Inr (- 130)"
  by code_simp

text \<open>
  Claim C7 says that \<^verbatim>\<open>readObject\<close> fails on an unknown id as \<^verbatim>\<open>toObject\<close> does.
  \<^verbatim>\<open>toObject\<close> tests the looked-up codec against \<^verbatim>\<open>undefined\<close> and raises the error that
  names the id; \<^verbatim>\<open>readObject\<close> has no such test and calls \<^verbatim>\<open>read\<close> on \<^verbatim>\<open>undefined\<close>.  With
  the id 12345, which no codec of the service has:
\<close>

theorem readObject_unknown_id_is_TypeError:
  "registry exampleService 12345 = None
   \<and> toObject exampleService (JHeapData (int32BE 0 @ int32BE 12345))
       = Inl (NoSuitableDeserializer 12345)
   \<and> readObject exampleService (ObjectDataInput (int32BE 12345) 0 True)
       = Inl (TypeError ''Cannot read properties of undefined (reading read)'')"
  by code_simp

text \<open>
  Claim C9 says that \<^verbatim>\<open>registerSerializer\<close> fails for every name that is already
  registered.  The test is on the truth value of the id stored under the name, so a
  name stored with the id 0 passes it.  In the service built with the default options
  the name \<^verbatim>\<open>null\<close> is stored with id 0; registering a codec with the fresh id 999 under
  the same name succeeds and replaces the id stored under the name, while the codec
  with id 0 stays in the registry.
\<close>

theorem registerSerializer_accepts_name_with_id_zero:
  "serializerNameToId exampleService ''null'' = Some 0
   \<and> registry exampleService 999 = None
   \<and> andThen (registerSerializer exampleService ''null'' (emptyCodec 999))
        (\<lambda>svc'. Inr (serializerNameToId svc' ''null'', map_option ser_id (registry svc' 0)))
       = Inr (Some 999, Some 0)"
  by code_simp

end
